theory Spec2Isabelle
  imports Main
begin

section \<open>Exceptions and prompt templates\<close>

text \<open>
  The scripts under \<^verbatim>\<open>simple_langchain/main.py\<close> and
  \<^verbatim>\<open>simple_agent_with_memory/main.py\<close> are modelled. Strings are byte strings
  (UTF-8), a Python exception is a value of \<open>py_exception\<close>, and a call that may raise
  returns \<open>py_exception + 'a\<close> with \<open>Inl\<close> for the exception.
\<close>

datatype py_exception =
    TypeError string
  | KeyError string
  | ValueError string
  | ValidationError string
  | OSError string
  | CapabilityError string
  | EOFError string

text \<open>
  \<^verbatim>\<open>PromptTemplate(input_variables=[...], template="...")\<close>: the two keyword arguments
  the program passes, kept as the fields of a record.
\<close>

record PromptTemplate =
  input_variables :: "string list"
  template :: string

text \<open>
  The format string of a template is read the way Python's \<^verbatim>\<open>str.format\<close> reads it:
  \<^verbatim>\<open>{name}\<close> is a replacement field, \<^verbatim>\<open>{{\<close> and \<^verbatim>\<open>}}\<close> stand for a literal
  brace, a lone brace is a \<^verbatim>\<open>ValueError\<close>. Fields are plain names, as in every template
  of the program. The first argument of \<open>parse_template\<close> is \<open>Some\<close> of the characters of
  the field name read so far while the scan is inside a field.
\<close>

datatype piece = Literal char | Field string

fun parse_template :: "string option \<Rightarrow> string \<Rightarrow> py_exception + piece list" where
  "parse_template None [] = Inr []"
| "parse_template (Some name) [] = Inl (ValueError ''expected closing brace before end of string'')"
| "parse_template None (c # cs) =
     (if c = CHR ''{'' then
        (case cs of
           [] \<Rightarrow> Inl (ValueError ''single opening brace in format string'')
         | d # ds \<Rightarrow>
             if d = CHR ''{'' then map_sum id ((#) (Literal (CHR ''{''))) (parse_template None ds)
             else parse_template (Some []) cs)
      else if c = CHR ''}'' then
        (case cs of
           [] \<Rightarrow> Inl (ValueError ''single closing brace in format string'')
         | d # ds \<Rightarrow>
             if d = CHR ''}'' then map_sum id ((#) (Literal (CHR ''}''))) (parse_template None ds)
             else Inl (ValueError ''single closing brace in format string''))
      else map_sum id ((#) (Literal c)) (parse_template None cs))"
| "parse_template (Some name) (c # cs) =
     (if c = CHR ''}'' then map_sum id ((#) (Field name)) (parse_template None cs)
      else parse_template (Some (name @ [c])) cs)"

text \<open>The names of the replacement fields of a format string, in order of appearance.\<close>

fun field_names :: "piece list \<Rightarrow> string list" where
  "field_names [] = []"
| "field_names (Literal c # ps) = field_names ps"
| "field_names (Field n # ps) = n # field_names ps"

definition placeholders :: "string \<Rightarrow> py_exception + string list" where
  "placeholders s = map_sum id field_names (parse_template None s)"

text \<open>
  A dict with string keys and values is an association list in insertion order;
  \<open>dict_get\<close> is \<^verbatim>\<open>d[k]\<close>, \<open>dict_set\<close> is \<^verbatim>\<open>d[k] = v\<close> (a present key keeps its
  position, a new key goes last).
\<close>

type_synonym py_dict = "(string \<times> string) list"

definition dict_get :: "py_dict \<Rightarrow> string \<Rightarrow> py_exception + string" where
  "dict_get d k = (case map_of d k of None \<Rightarrow> Inl (KeyError k) | Some v \<Rightarrow> Inr v)"

fun dict_set :: "py_dict \<Rightarrow> string \<Rightarrow> string \<Rightarrow> py_dict" where
  "dict_set [] k v = [(k, v)]"
| "dict_set ((k', v') # d) k v = (if k' = k then (k, v) # d else (k', v') # dict_set d k v)"

text \<open>
  Filling the fields from the bindings: a field whose name has no binding raises
  \<^verbatim>\<open>KeyError\<close>; a bound value is inserted as it is, also when it is the empty string.
\<close>

fun fill :: "py_dict \<Rightarrow> piece list \<Rightarrow> py_exception + string" where
  "fill b [] = Inr []"
| "fill b (Literal c # ps) = map_sum id ((#) c) (fill b ps)"
| "fill b (Field n # ps) =
     (case map_of b n of
        None \<Rightarrow> Inl (KeyError n)
      | Some v \<Rightarrow> map_sum id ((@) v) (fill b ps))"

text \<open>
  \<^verbatim>\<open>prompt.format(**bindings)\<close>, and the check that a template run as a step makes
  first: every declared input variable must have a binding (\<^verbatim>\<open>KeyError\<close> otherwise).
\<close>

definition format_template :: "PromptTemplate \<Rightarrow> py_dict \<Rightarrow> py_exception + string" where
  "format_template t b =
     (case parse_template None (template t) of
        Inl e \<Rightarrow> Inl e
      | Inr ps \<Rightarrow> fill b ps)"

definition render :: "PromptTemplate \<Rightarrow> py_dict \<Rightarrow> py_exception + string" where
  "render t b =
     (case filter (\<lambda>v. map_of b v = None) (input_variables t) of
        [] \<Rightarrow> format_template t b
      | v # vs \<Rightarrow> Inl (KeyError v))"

subsection \<open>The templates the program constructs\<close>

definition create_restaurant_name_prompt_template :: PromptTemplate where
  "create_restaurant_name_prompt_template =
     \<lparr> input_variables = [''cuisine''],
       template = ''I want to open a restaurant for {cuisine} food. Suggest a fancy name for this. Only single name'' \<rparr>"

definition create_restaurant_menu_prompt_template :: PromptTemplate where
  "create_restaurant_menu_prompt_template =
     \<lparr> input_variables = [''restaurant_name''],
       template = ''Suggest some veg menu items for {restaurant_name}. Return it as comma separated list.'' \<rparr>"

text \<open>
  The conversation template is a triple-quoted literal: its lines after the first keep the
  four spaces of the source's indentation, and \<open>CHR 10\<close> is the line feed.
\<close>

definition conversation_template_text :: string where
  "conversation_template_text =
     ''You are a helpful and friendly AI assistant. You remember our previous conversation.''
     @ [CHR 10, CHR 10]
     @ ''    Current conversation:'' @ [CHR 10]
     @ ''    {history}'' @ [CHR 10]
     @ ''    Human: {input}'' @ [CHR 10]
     @ ''    AI:''"

definition create_conversation_prompt :: PromptTemplate where
  "create_conversation_prompt =
     \<lparr> input_variables = [''history'', ''input''],
       template = conversation_template_text \<rparr>"

text \<open>The two prompts as functions of the one value each of them takes.\<close>

definition name_prompt_text :: "string \<Rightarrow> string" where
  "name_prompt_text cuisine =
     ''I want to open a restaurant for '' @ cuisine
     @ '' food. Suggest a fancy name for this. Only single name''"

definition menu_prompt_text :: "string \<Rightarrow> string" where
  "menu_prompt_text restaurant_name =
     ''Suggest some veg menu items for '' @ restaurant_name
     @ ''. Return it as comma separated list.''"

section \<open>The completion capability\<close>

text \<open>
  The model (\<^verbatim>\<open>OpenAI(temperature=0.7)\<close>) is an opaque collaborator: given its own
  state and the rendered prompt it returns the generated text or raises, and moves to a
  new state. A deterministic stub is the special case that ignores the state. The runners
  keep, next to the capability's state, the list of the prompts sent so far.
\<close>

type_synonym 's llm = "'s \<Rightarrow> string \<Rightarrow> (py_exception + string) \<times> 's"

type_synonym 's cap = "'s \<times> string list"

definition complete :: "'s llm \<Rightarrow> string \<Rightarrow> 's cap \<Rightarrow> (py_exception + string) \<times> 's cap" where
  "complete l p w = (case l (fst w) p of (r, s') \<Rightarrow> (r, (s', snd w @ [p])))"

section \<open>Clock, console and report file\<close>

record datetime =
  year :: nat
  month :: nat
  day :: nat
  hour :: nat
  minute :: nat
  second :: nat

definition digit :: "nat \<Rightarrow> char" where
  "digit n = ''0123456789'' ! (n mod 10)"

definition pad2 :: "nat \<Rightarrow> string" where
  "pad2 n = [digit (n div 10), digit n]"

definition pad4 :: "nat \<Rightarrow> string" where
  "pad4 n = [digit (n div 1000), digit (n div 100), digit (n div 10), digit n]"

text \<open>\<^verbatim>\<open>strftime("%Y%m%d_%H%M%S")\<close> and \<^verbatim>\<open>strftime('%Y-%m-%d %H:%M:%S')\<close>.\<close>

definition strftime_compact :: "datetime \<Rightarrow> string" where
  "strftime_compact t =
     pad4 (year t) @ pad2 (month t) @ pad2 (day t) @ ''_''
     @ pad2 (hour t) @ pad2 (minute t) @ pad2 (second t)"

definition strftime_readable :: "datetime \<Rightarrow> string" where
  "strftime_readable t =
     pad4 (year t) @ ''-'' @ pad2 (month t) @ ''-'' @ pad2 (day t) @ '' ''
     @ pad2 (hour t) @ '':'' @ pad2 (minute t) @ '':'' @ pad2 (second t)"

definition valid_datetime :: "datetime \<Rightarrow> bool" where
  "valid_datetime t =
     (1000 \<le> year t \<and> year t \<le> 9999 \<and> 1 \<le> month t \<and> month t \<le> 12
      \<and> 1 \<le> day t \<and> day t \<le> 31 \<and> hour t < 24 \<and> minute t < 60 \<and> second t < 60)"

text \<open>
  What the file system does to the \<^verbatim>\<open>with open(filename, 'w')\<close> block: nothing,
  \<^verbatim>\<open>open\<close> raises, or the write call number \<open>k\<close> (counted from 0) raises after the
  earlier ones went through.
\<close>

datatype write_fault = NoFault | OpenFails py_exception | WriteFails nat py_exception

text \<open>
  The environment of one run: the two values \<^verbatim>\<open>datetime.now()\<close> returns (for the file
  name, then for the report's second line), the behaviour of the file system, and Python's
  \<^verbatim>\<open>repr\<close> of a string, which is left open.
\<close>

record env =
  now_filename :: datetime
  now_report :: datetime
  fault :: write_fault
  py_repr :: "string \<Rightarrow> string"

definition nl :: string where
  "nl = [CHR 10]"

text \<open>
  \<^verbatim>\<open>str(e)\<close>: the message, and for a \<^verbatim>\<open>KeyError\<close> the \<^verbatim>\<open>repr\<close> of the key
  (\<open>rp\<close> is Python's \<^verbatim>\<open>repr\<close> of a string).
\<close>

fun exception_str :: "(string \<Rightarrow> string) \<Rightarrow> py_exception \<Rightarrow> string" where
  "exception_str rp (TypeError m) = m"
| "exception_str rp (KeyError k) = rp k"
| "exception_str rp (ValueError m) = m"
| "exception_str rp (ValidationError m) = m"
| "exception_str rp (OSError m) = m"
| "exception_str rp (CapabilityError m) = m"
| "exception_str rp (EOFError m) = m"

text \<open>The two marks of the final messages, U+2705 and U+274C, as UTF-8 bytes.\<close>

definition check_mark :: string where
  "check_mark = [CHR 0xE2, CHR 0x9C, CHR 0x85]"

definition cross_mark :: string where
  "cross_mark = [CHR 0xE2, CHR 0x9D, CHR 0x8C]"

definition saved_message :: "string \<Rightarrow> string" where
  "saved_message filename = nl @ check_mark @ '' Results saved to: '' @ filename"

definition error_message :: "env \<Rightarrow> py_exception \<Rightarrow> string" where
  "error_message en e = nl @ cross_mark @ '' Error saving to file: '' @ exception_str (py_repr en) e"

text \<open>
  The \<^verbatim>\<open>try: with open(...) as file: file.write(...) ... except Exception as e\<close> block
  that ends both runners. \<open>chunks\<close> are the arguments of the \<^verbatim>\<open>write\<close> calls in order.
  The result is what the block prints and the files it leaves: the whole report and the
  success message, or the failure message with no file (when \<^verbatim>\<open>open\<close> raised) or with
  the chunks written before the failing call. No exception leaves the block.
\<close>

definition save_report :: "env \<Rightarrow> string \<Rightarrow> string list \<Rightarrow> string list \<times> (string \<times> string) list" where
  "save_report en filename chunks =
     (case fault en of
        NoFault \<Rightarrow> ([saved_message filename], [(filename, concat chunks)])
      | OpenFails e \<Rightarrow> ([error_message en e], [])
      | WriteFails k e \<Rightarrow>
          if k < length chunks
          then ([error_message en e], [(filename, concat (take k chunks))])
          else ([saved_message filename], [(filename, concat chunks)]))"

definition report_filename :: "env \<Rightarrow> string" where
  "report_filename en = ''restaurant_output_'' @ strftime_compact (now_filename en) @ ''.txt''"

text \<open>
  What a run leaves behind: its outcome (the exception that ended it, or the value
  returned, \<open>None\<close> for Python's \<^verbatim>\<open>None\<close>), the console (one entry for each
  \<^verbatim>\<open>print\<close> call and each \<^verbatim>\<open>input\<close> prompt of the program), the files written (name
  and content), the prompts sent to the capability, and the capability's state.
\<close>

record 's run =
  outcome :: "py_exception + py_dict option"
  console :: "string list"
  files :: "(string \<times> string) list"
  calls :: "string list"
  llm_state :: 's

definition finish :: "py_exception + py_dict option \<Rightarrow> string list \<Rightarrow> (string \<times> string) list \<Rightarrow> 's cap \<Rightarrow> 's run" where
  "finish r out fs w =
     \<lparr> outcome = r, console = out, files = fs, calls = snd w, llm_state = fst w \<rparr>"

section \<open>The manual runner\<close>

text \<open>
  \<^verbatim>\<open>prompt | llm\<close>: composing with \<^verbatim>\<open>None\<close> on either side is a \<^verbatim>\<open>TypeError\<close>.
\<close>

definition pipe :: "PromptTemplate option \<Rightarrow> 's llm option \<Rightarrow> py_exception + (PromptTemplate \<times> 's llm)" where
  "pipe p l =
     (case (p, l) of
        (Some p', Some l') \<Rightarrow> Inr (p', l')
      | _ \<Rightarrow> Inl (TypeError ''unsupported operand for |: NoneType''))"

text \<open>\<^verbatim>\<open>chain.invoke(bindings)\<close> for \<^verbatim>\<open>chain = prompt | llm\<close>: render, then complete.\<close>

definition pipe_invoke :: "PromptTemplate \<times> 's llm \<Rightarrow> py_dict \<Rightarrow> 's cap \<Rightarrow> (py_exception + string) \<times> 's cap" where
  "pipe_invoke ch b w =
     (case render (fst ch) b of
        Inl e \<Rightarrow> (Inl e, w)
      | Inr p \<Rightarrow> complete (snd ch) p w)"

text \<open>The \<^verbatim>\<open>write\<close> calls of \<^verbatim>\<open>main\<close>, lines 191 to 198.\<close>

definition main_report :: "env \<Rightarrow> string \<Rightarrow> string \<Rightarrow> string \<Rightarrow> string list" where
  "main_report en cuisine restaurant_name_output menu_output =
     [ ''=== LangChain Restaurant Generator Output ==='' @ nl,
       ''Generated on: '' @ strftime_readable (now_report en) @ nl,
       ''Method: Manual Chain Management'' @ nl,
       ''Cuisine Type: '' @ cuisine @ nl,
       replicate 50 (CHR ''-'') @ nl @ nl,
       ''Restaurant Name: '' @ restaurant_name_output @ nl @ nl,
       ''Menu Items: '' @ menu_output @ nl,
       nl @ replicate 50 (CHR ''='') ]"

text \<open>
  \<^verbatim>\<open>main(cuisine, llm=None, restaurant_name_prompt=None, restaurant_menu_prompt=None)\<close>.
  An argument the caller leaves out is \<open>None\<close>; \<^verbatim>\<open>cuisine\<close> has no default, so a call
  without it raises \<^verbatim>\<open>TypeError\<close> before the body starts. The function has no
  \<^verbatim>\<open>return\<close> statement: a run that reaches its end returns \<^verbatim>\<open>None\<close>
  (\<open>Inr None\<close>).
\<close>

definition main :: "string option \<Rightarrow> 's llm option \<Rightarrow> PromptTemplate option \<Rightarrow> PromptTemplate option
    \<Rightarrow> env \<Rightarrow> 's cap \<Rightarrow> 's run" where
  "main cuisine_arg llm restaurant_name_prompt restaurant_menu_prompt en w =
     (case cuisine_arg of
        None \<Rightarrow> finish (Inl (TypeError ''main() missing 1 required positional argument: cuisine'')) [] [] w
      | Some cuisine \<Rightarrow>
     (case pipe restaurant_name_prompt llm of
        Inl e \<Rightarrow> finish (Inl e) [''Main Called''] [] w
      | Inr name_chain \<Rightarrow>
     (case pipe restaurant_menu_prompt llm of
        Inl e \<Rightarrow> finish (Inl e) [''Main Called''] [] w
      | Inr menu_chain \<Rightarrow>
     (case pipe_invoke name_chain [(''cuisine'', cuisine)] w of
        (Inl e, w1) \<Rightarrow> finish (Inl e) [''Main Called''] [] w1
      | (Inr restaurant_name_output, w1) \<Rightarrow>
     (case pipe_invoke menu_chain [(''restaurant_name'', restaurant_name_output)] w1 of
        (Inl e, w2) \<Rightarrow> finish (Inl e) [''Main Called''] [] w2
      | (Inr menu_output, w2) \<Rightarrow>
     (case save_report en (report_filename en)
             (main_report en cuisine restaurant_name_output menu_output) of
        (msgs, fs) \<Rightarrow>
          finish (Inr None)
            ([''Main Called'', nl @ ''Final Output:'', ''Restaurant: '' @ restaurant_name_output,
              ''Menu: '' @ menu_output] @ msgs)
            fs w2))))))"

section \<open>The automatic runner\<close>

text \<open>
  \<^verbatim>\<open>LLMChain(llm=..., prompt=..., output_key=...)\<close>: a step of the pipeline. The
  constructor refuses \<^verbatim>\<open>None\<close> for the model or the prompt.
\<close>

record 's LLMChain =
  chain_llm :: "'s llm"
  chain_prompt :: PromptTemplate
  output_key :: string

definition LLMChain_new :: "'s llm option \<Rightarrow> PromptTemplate option \<Rightarrow> string \<Rightarrow> py_exception + 's LLMChain" where
  "LLMChain_new l p k =
     (case (l, p) of
        (Some l', Some p') \<Rightarrow> Inr \<lparr> chain_llm = l', chain_prompt = p', output_key = k \<rparr>
      | _ \<Rightarrow> Inl (ValidationError ''LLMChain: none is not an allowed value''))"

record 's SequentialChain =
  chains :: "'s LLMChain list"
  seq_input_variables :: "string list"
  seq_output_variables :: "string list"

text \<open>
  The constructor of \<^verbatim>\<open>SequentialChain\<close> walks the steps in order with the names known
  so far: a step whose prompt needs an unknown name, or whose output key is already
  known, is a \<^verbatim>\<open>ValueError\<close>, and so is a declared output variable that no step
  produces. No step has run at that time.
\<close>

fun validate_chains :: "string list \<Rightarrow> 's LLMChain list \<Rightarrow> py_exception + string list" where
  "validate_chains known [] = Inr known"
| "validate_chains known (c # cs) =
     (if filter (\<lambda>v. v \<notin> set known) (input_variables (chain_prompt c)) \<noteq> []
      then Inl (ValueError ''Missing required input keys'')
      else if output_key c \<in> set known
      then Inl (ValueError ''Chain returned keys that already exist'')
      else validate_chains (known @ [output_key c]) cs)"

definition SequentialChain_new :: "'s LLMChain list \<Rightarrow> string list \<Rightarrow> string list
    \<Rightarrow> py_exception + 's SequentialChain" where
  "SequentialChain_new cs input_vars output_vars =
     (case validate_chains input_vars cs of
        Inl e \<Rightarrow> Inl e
      | Inr known \<Rightarrow>
          if filter (\<lambda>v. v \<notin> set known) output_vars \<noteq> []
          then Inl (ValueError ''Expected output variables that were not found'')
          else Inr \<lparr> chains = cs, seq_input_variables = input_vars,
                     seq_output_variables = output_vars \<rparr>)"

text \<open>\<^verbatim>\<open>{k: d[k] for k in names}\<close>, for names that are keys of \<open>d\<close>.\<close>

definition select_keys :: "py_dict \<Rightarrow> string list \<Rightarrow> py_dict" where
  "select_keys d names = List.map_filter (\<lambda>k. map_option (Pair k) (map_of d k)) names"

definition dict_update :: "py_dict \<Rightarrow> py_dict \<Rightarrow> py_dict" where
  "dict_update d new = foldl (\<lambda>acc kv. dict_set acc (fst kv) (snd kv)) d new"

text \<open>
  Running one step on the values known so far: the step checks that its prompt's input
  variables are all known, formats the prompt from exactly those, calls the model, and
  returns the text under its output key.
\<close>

definition LLMChain_call :: "'s LLMChain \<Rightarrow> py_dict \<Rightarrow> 's cap \<Rightarrow> (py_exception + py_dict) \<times> 's cap" where
  "LLMChain_call c known w =
     (if filter (\<lambda>v. map_of known v = None) (input_variables (chain_prompt c)) \<noteq> []
      then (Inl (ValueError ''Missing some input keys''), w)
      else
        (case format_template (chain_prompt c)
                (select_keys known (input_variables (chain_prompt c))) of
           Inl e \<Rightarrow> (Inl e, w)
         | Inr p \<Rightarrow>
             (case complete (chain_llm c) p w of
                (Inl e, w') \<Rightarrow> (Inl e, w')
              | (Inr text, w') \<Rightarrow> (Inr [(output_key c, text)], w'))))"

text \<open>The executor's loop: each step's outputs join the known values.\<close>

fun run_chains :: "'s LLMChain list \<Rightarrow> py_dict \<Rightarrow> 's cap \<Rightarrow> (py_exception + py_dict) \<times> 's cap" where
  "run_chains [] known w = (Inr known, w)"
| "run_chains (c # cs) known w =
     (case LLMChain_call c known w of
        (Inl e, w') \<Rightarrow> (Inl e, w')
      | (Inr outputs, w') \<Rightarrow> run_chains cs (dict_update known outputs) w')"

text \<open>
  \<^verbatim>\<open>sequential_chain.invoke(inputs)\<close>: the inputs must hold the declared input
  variables; the result is the inputs followed by the declared output variables.
\<close>

definition SequentialChain_invoke :: "'s SequentialChain \<Rightarrow> py_dict \<Rightarrow> 's cap
    \<Rightarrow> (py_exception + py_dict) \<times> 's cap" where
  "SequentialChain_invoke sc inputs w =
     (if filter (\<lambda>v. map_of inputs v = None) (seq_input_variables sc) \<noteq> []
      then (Inl (ValueError ''Missing some input keys''), w)
      else
        (case run_chains (chains sc) inputs w of
           (Inl e, w') \<Rightarrow> (Inl e, w')
         | (Inr known, w') \<Rightarrow>
             (Inr (dict_update inputs (select_keys known (seq_output_variables sc))), w')))"

definition join :: "string \<Rightarrow> string list \<Rightarrow> string" where
  "join sep xs = (case xs of [] \<Rightarrow> [] | y # ys \<Rightarrow> y @ concat (map ((@) sep) ys))"

text \<open>\<^verbatim>\<open>f"{result}"\<close> for a dict of strings.\<close>

definition dict_str :: "env \<Rightarrow> py_dict \<Rightarrow> string" where
  "dict_str en d =
     ''{'' @ join '', '' (map (\<lambda>kv. py_repr en (fst kv) @ '': '' @ py_repr en (snd kv)) d) @ ''}''"

text \<open>The \<^verbatim>\<open>write\<close> calls of \<^verbatim>\<open>main_with_sequential_chain\<close>, lines 128 to 135.\<close>

definition sequential_report :: "env \<Rightarrow> string \<Rightarrow> py_dict \<Rightarrow> string \<Rightarrow> string \<Rightarrow> string list" where
  "sequential_report en cuisine result restaurant_name menu_items =
     [ ''=== LangChain Restaurant Generator Output ==='' @ nl,
       ''Generated on: '' @ strftime_readable (now_report en) @ nl,
       ''Cuisine Type: '' @ cuisine @ nl,
       replicate 50 (CHR ''-'') @ nl @ nl,
       ''Sequential Chain Final Output: '' @ dict_str en result @ nl @ nl,
       ''Restaurant Name: '' @ restaurant_name @ nl @ nl,
       ''Menu Items: '' @ menu_items @ nl,
       nl @ replicate 50 (CHR ''='') ]"

text \<open>
  \<^verbatim>\<open>main_with_sequential_chain(cuisine, llm=None, restaurant_name_prompt=None,
  restaurant_menu_prompt=None)\<close>. The console holds the program's own \<^verbatim>\<open>print\<close>
  calls; what the library logs under \<^verbatim>\<open>verbose=True\<close> is left out. The function
  returns the result dict (\<open>Inr (Some result)\<close>).
\<close>

definition main_with_sequential_chain :: "string \<Rightarrow> 's llm option \<Rightarrow> PromptTemplate option
    \<Rightarrow> PromptTemplate option \<Rightarrow> env \<Rightarrow> 's cap \<Rightarrow> 's run" where
  "main_with_sequential_chain cuisine llm restaurant_name_prompt restaurant_menu_prompt en w =
     (case LLMChain_new llm restaurant_name_prompt ''restaurant_name'' of
        Inl e \<Rightarrow> finish (Inl e) [''Sequential Chain Implementation Called''] [] w
      | Inr name_chain \<Rightarrow>
     (case LLMChain_new llm restaurant_menu_prompt ''menu_items'' of
        Inl e \<Rightarrow> finish (Inl e) [''Sequential Chain Implementation Called''] [] w
      | Inr menu_chain \<Rightarrow>
     (case SequentialChain_new [name_chain, menu_chain] [''cuisine'']
             [''restaurant_name'', ''menu_items''] of
        Inl e \<Rightarrow> finish (Inl e) [''Sequential Chain Implementation Called''] [] w
      | Inr sequential_chain \<Rightarrow>
     (case SequentialChain_invoke sequential_chain [(''cuisine'', cuisine)] w of
        (Inl e, w1) \<Rightarrow> finish (Inl e) [''Sequential Chain Implementation Called''] [] w1
      | (Inr result, w1) \<Rightarrow>
     (case dict_get result ''restaurant_name'' of
        Inl e \<Rightarrow>
          finish (Inl e)
            [''Sequential Chain Implementation Called'',
             nl @ ''Sequential Chain Final Output: '' @ dict_str en result] [] w1
      | Inr restaurant_name \<Rightarrow>
     (case dict_get result ''menu_items'' of
        Inl e \<Rightarrow>
          finish (Inl e)
            [''Sequential Chain Implementation Called'',
             nl @ ''Sequential Chain Final Output: '' @ dict_str en result,
             ''Restaurant: '' @ restaurant_name] [] w1
      | Inr menu_items \<Rightarrow>
     (case save_report en (report_filename en)
             (sequential_report en cuisine result restaurant_name menu_items) of
        (msgs, fs) \<Rightarrow>
          finish (Inr (Some result))
            ([''Sequential Chain Implementation Called'',
              nl @ ''Sequential Chain Final Output: '' @ dict_str en result,
              ''Restaurant: '' @ restaurant_name, ''Menu: '' @ menu_items] @ msgs)
            fs w1)))))))"

section \<open>The entry point\<close>





section \<open>The conversational chain with memory\<close>

text \<open>
  Modelled from the spec: \<^verbatim>\<open>ConversationBufferWindowMemory\<close> and
  \<^verbatim>\<open>ConversationChain\<close> are classes of the imported library, whose code is not part
  of the sources; \<^verbatim>\<open>simple_agent_with_memory/main.py\<close> only constructs them
  (\<^verbatim>\<open>k=5\<close>) and calls \<^verbatim>\<open>predict\<close>. The model follows the spec's "bounded-window
  conversational memory" and the docstring of \<^verbatim>\<open>create_memory\<close> ("stores only the last
  5 conversation exchanges") by the library's mechanism: the memory appends one human and
  one AI message per completed exchange, and the history it hands to the prompt is built
  from the last \<open>2 * k\<close> messages.
\<close>

datatype message = HumanMessage string | AIMessage string

record ConversationBufferWindowMemory =
  window_k :: nat
  chat_memory :: "message list"


definition buffer_messages :: "ConversationBufferWindowMemory \<Rightarrow> message list" where
  "buffer_messages m =
     (if 0 < window_k m
      then drop (length (chat_memory m) - window_k m * 2) (chat_memory m)
      else [])"











text \<open>The two messages that one completed exchange adds to the memory.\<close>

definition exchange_messages :: "string \<times> string \<Rightarrow> message list" where
  "exchange_messages x = [HumanMessage (fst x), AIMessage (snd x)]"

section \<open>The pipeline of the program and a test double\<close>

text \<open>
  The \<^verbatim>\<open>SequentialChain\<close> that \<^verbatim>\<open>main_with_sequential_chain\<close> builds from the
  program's two templates (lines 92 to 111).
\<close>

definition program_chain :: "'s llm \<Rightarrow> 's SequentialChain" where
  "program_chain l =
     \<lparr> chains =
         [\<lparr> chain_llm = l, chain_prompt = create_restaurant_name_prompt_template,
            output_key = ''restaurant_name'' \<rparr>,
          \<lparr> chain_llm = l, chain_prompt = create_restaurant_menu_prompt_template,
            output_key = ''menu_items'' \<rparr>],
       seq_input_variables = [''cuisine''],
       seq_output_variables = [''restaurant_name'', ''menu_items''] \<rparr>"

text \<open>
  A deterministic stub of the capability, used for the concrete runs below: it answers
  the name prompt for Italian and for Thai food and the menu prompt for the first of the
  two names, and raises on every other prompt.
\<close>

definition stub_llm :: "unit llm" where
  "stub_llm s p =
     (if p = name_prompt_text ''Italian'' then (Inr ''Bella Notte'', s)
      else if p = menu_prompt_text ''Bella Notte''
      then (Inr ''Margherita Pizza, Caprese Salad, Bruschetta'', s)
      else if p = name_prompt_text ''Thai'' then (Inr ''Siam Garden'', s)
      else (Inl (CapabilityError ''service unavailable''), s))"

text \<open>
  A concrete environment: both clock readings are 2024-01-15 10:30:45, the file system
  works, and \<^verbatim>\<open>repr\<close> puts a string between single quotes (what Python does for a
  string without quotes, backslashes or control characters).
\<close>

definition stub_now :: datetime where
  "stub_now = \<lparr> year = 2024, month = 1, day = 15, hour = 10, minute = 30, second = 45 \<rparr>"

definition stub_env :: env where
  "stub_env =
     \<lparr> now_filename = stub_now, now_report = stub_now, fault = NoFault,
       py_repr = (\<lambda>s. [CHR 39] @ s @ [CHR 39]) \<rparr>"

text \<open>Text split at line feeds, as a reader of the report file sees its lines.\<close>

fun lines_acc :: "string \<Rightarrow> string \<Rightarrow> string list" where
  "lines_acc cur [] = [cur]"
| "lines_acc cur (c # cs) =
     (if c = CHR 10 then cur # lines_acc [] cs else lines_acc (cur @ [c]) cs)"

definition lines_of :: "string \<Rightarrow> string list" where
  "lines_of s = lines_acc [] s"

definition is_digit :: "char \<Rightarrow> bool" where
  "is_digit c = (c \<in> set ''0123456789'')"

text \<open>The shape \<^verbatim>\<open>YYYYMMDD_HHMMSS\<close>: fifteen characters, digits around one underscore.\<close>

definition timestamp_shape :: "string \<Rightarrow> bool" where
  "timestamp_shape s =
     (length s = 15 \<and> list_all is_digit (take 8 s) \<and> s ! 8 = CHR ''_''
      \<and> list_all is_digit (drop 9 s))"

text \<open>The number that a string of decimal digits writes.\<close>

definition digit_value :: "char \<Rightarrow> nat" where
  "digit_value c = of_char c - 48"

definition decimal :: "string \<Rightarrow> nat" where
  "decimal s = foldl (\<lambda>a c. 10 * a + digit_value c) 0 s"

text \<open>
  The report layout in the words of the specification, as a check on the lines of a file:
  a title line between \<^verbatim>\<open>=== \<close> and \<^verbatim>\<open> ===\<close>, the generation time, the cuisine, fifty
  dashes, the restaurant name, the menu items, fifty equals signs, and no other line.
\<close>

definition spec_layout :: "string \<Rightarrow> string \<Rightarrow> string \<Rightarrow> string list \<Rightarrow> bool" where
  "spec_layout cuisine restaurant_name menu_items ls =
     (case ls of
        [title, generated, cuisine_line, dashes, name_line, menu_line, footer] \<Rightarrow>
          take 4 title = ''=== '' \<and> drop (length title - 4) title = '' ===''
          \<and> take 14 generated = ''Generated on: ''
          \<and> cuisine_line = ''Cuisine Type: '' @ cuisine
          \<and> dashes = replicate 50 (CHR ''-'')
          \<and> name_line = ''Restaurant Name: '' @ restaurant_name
          \<and> menu_line = ''Menu Items: '' @ menu_items
          \<and> footer = replicate 50 (CHR ''='')
      | _ \<Rightarrow> False)"

section \<open>Rendering lemmas\<close>

lemma parse_name_template:
  "parse_template None (template create_restaurant_name_prompt_template) =
     Inr (map Literal ''I want to open a restaurant for '' @ [Field ''cuisine'']
          @ map Literal '' food. Suggest a fancy name for this. Only single name'')"
  by (simp add: create_restaurant_name_prompt_template_def)

lemma parse_menu_template:
  "parse_template None (template create_restaurant_menu_prompt_template) =
     Inr (map Literal ''Suggest some veg menu items for '' @ [Field ''restaurant_name'']
          @ map Literal ''. Return it as comma separated list.'')"
  by (simp add: create_restaurant_menu_prompt_template_def)

lemma fill_literals: "fill b (map Literal s @ ps) = map_sum id ((@) s) (fill b ps)"
proof (induction s)
  case Nil
  show ?case by (simp add: sum.map_ident)
next
  case (Cons c s)
  then show ?case by (cases "fill b ps") simp_all
qed

lemma fill_literals_only: "fill b (map Literal s) = Inr s"
  using fill_literals [of b s "[]"] by simp

lemma format_name_template:
  "map_of b ''cuisine'' = Some v \<Longrightarrow>
   format_template create_restaurant_name_prompt_template b = Inr (name_prompt_text v)"
  by (simp add: format_template_def parse_name_template fill_literals fill_literals_only
      name_prompt_text_def)

lemma format_menu_template:
  "map_of b ''restaurant_name'' = Some v \<Longrightarrow>
   format_template create_restaurant_menu_prompt_template b = Inr (menu_prompt_text v)"
  by (simp add: format_template_def parse_menu_template fill_literals fill_literals_only
      menu_prompt_text_def)

lemma name_template_variables:
  "input_variables create_restaurant_name_prompt_template = [''cuisine'']"
  by (simp add: create_restaurant_name_prompt_template_def)

lemma menu_template_variables:
  "input_variables create_restaurant_menu_prompt_template = [''restaurant_name'']"
  by (simp add: create_restaurant_menu_prompt_template_def)

lemma render_name_template:
  "map_of b ''cuisine'' = Some v \<Longrightarrow>
   render create_restaurant_name_prompt_template b = Inr (name_prompt_text v)"
  by (simp add: render_def format_name_template name_template_variables)

lemma render_menu_template:
  "map_of b ''restaurant_name'' = Some v \<Longrightarrow>
   render create_restaurant_menu_prompt_template b = Inr (menu_prompt_text v)"
  by (simp add: render_def format_menu_template menu_template_variables)

section \<open>The two runners, step by step\<close>

lemma pipe_invoke_name:
  "pipe_invoke (create_restaurant_name_prompt_template, l) [(''cuisine'', c)] w =
     complete l (name_prompt_text c) w"
  by (simp add: pipe_invoke_def render_name_template)

lemma pipe_invoke_menu:
  "pipe_invoke (create_restaurant_menu_prompt_template, l) [(''restaurant_name'', n)] w =
     complete l (menu_prompt_text n) w"
  by (simp add: pipe_invoke_def render_menu_template)


lemma main_steps:
  "main (Some c) (Some l) (Some create_restaurant_name_prompt_template)
        (Some create_restaurant_menu_prompt_template) en w =
     (case complete l (name_prompt_text c) w of
        (Inl e, w1) \<Rightarrow> finish (Inl e) [''Main Called''] [] w1
      | (Inr n, w1) \<Rightarrow>
          (case complete l (menu_prompt_text n) w1 of
             (Inl e, w2) \<Rightarrow> finish (Inl e) [''Main Called''] [] w2
           | (Inr m, w2) \<Rightarrow>
               finish (Inr None)
                 ([''Main Called'', nl @ ''Final Output:'', ''Restaurant: '' @ n, ''Menu: '' @ m]
                  @ fst (save_report en (report_filename en) (main_report en c n m)))
                 (snd (save_report en (report_filename en) (main_report en c n m))) w2))"
proof -
  obtain r1 w1 where c1: "complete l (name_prompt_text c) w = (r1, w1)"
    by (cases "complete l (name_prompt_text c) w")
  show ?thesis
  proof (cases r1)
    case (Inl e)
    with c1 show ?thesis
      by (simp add: main_def pipe_def pipe_invoke_name)
  next
    case (Inr n)
    obtain r2 w2 where c2: "complete l (menu_prompt_text n) w1 = (r2, w2)"
      by (cases "complete l (menu_prompt_text n) w1")
    show ?thesis
    proof (cases r2)
      case (Inl e)
      with c1 c2 \<open>r1 = Inr n\<close> show ?thesis
        by (simp add: main_def pipe_def pipe_invoke_name pipe_invoke_menu)
    next
      case (Inr m)
      with c1 c2 \<open>r1 = Inr n\<close> show ?thesis
        by (simp add: main_def pipe_def pipe_invoke_name pipe_invoke_menu split: prod.splits)
    qed
  qed
qed

lemma call_name_chain:
  "LLMChain_call \<lparr> chain_llm = l, chain_prompt = create_restaurant_name_prompt_template,
        output_key = k \<rparr> [(''cuisine'', c)] w =
     (case complete l (name_prompt_text c) w of
        (Inl e, w') \<Rightarrow> (Inl e, w')
      | (Inr text, w') \<Rightarrow> (Inr [(k, text)], w'))"
  by (simp add: LLMChain_call_def name_template_variables select_keys_def
      format_name_template split: prod.splits sum.splits)

lemma call_menu_chain:
  "LLMChain_call \<lparr> chain_llm = l, chain_prompt = create_restaurant_menu_prompt_template,
        output_key = k \<rparr> [(''cuisine'', c), (''restaurant_name'', n)] w =
     (case complete l (menu_prompt_text n) w of
        (Inl e, w') \<Rightarrow> (Inl e, w')
      | (Inr text, w') \<Rightarrow> (Inr [(k, text)], w'))"
  by (simp add: LLMChain_call_def menu_template_variables select_keys_def
      format_menu_template split: prod.splits sum.splits)

lemma build_program_chain:
  "SequentialChain_new
     [\<lparr> chain_llm = l, chain_prompt = create_restaurant_name_prompt_template,
        output_key = ''restaurant_name'' \<rparr>,
      \<lparr> chain_llm = l, chain_prompt = create_restaurant_menu_prompt_template,
        output_key = ''menu_items'' \<rparr>]
     [''cuisine''] [''restaurant_name'', ''menu_items''] = Inr (program_chain l)"
  by (simp add: SequentialChain_new_def name_template_variables menu_template_variables
      program_chain_def)

lemma invoke_program_chain:
  "SequentialChain_invoke (program_chain l) [(''cuisine'', c)] w =
     (case complete l (name_prompt_text c) w of
        (Inl e, w1) \<Rightarrow> (Inl e, w1)
      | (Inr n, w1) \<Rightarrow>
          (case complete l (menu_prompt_text n) w1 of
             (Inl e, w2) \<Rightarrow> (Inl e, w2)
           | (Inr m, w2) \<Rightarrow>
               (Inr [(''cuisine'', c), (''restaurant_name'', n), (''menu_items'', m)], w2)))"
  by (simp add: SequentialChain_invoke_def program_chain_def call_name_chain call_menu_chain
      dict_update_def select_keys_def split: prod.splits sum.splits)

lemma sequential_steps:
  "main_with_sequential_chain c (Some l) (Some create_restaurant_name_prompt_template)
        (Some create_restaurant_menu_prompt_template) en w =
     (case complete l (name_prompt_text c) w of
        (Inl e, w1) \<Rightarrow> finish (Inl e) [''Sequential Chain Implementation Called''] [] w1
      | (Inr n, w1) \<Rightarrow>
          (case complete l (menu_prompt_text n) w1 of
             (Inl e, w2) \<Rightarrow> finish (Inl e) [''Sequential Chain Implementation Called''] [] w2
           | (Inr m, w2) \<Rightarrow>
               finish (Inr (Some [(''cuisine'', c), (''restaurant_name'', n), (''menu_items'', m)]))
                 ([''Sequential Chain Implementation Called'',
                   nl @ ''Sequential Chain Final Output: ''
                     @ dict_str en [(''cuisine'', c), (''restaurant_name'', n), (''menu_items'', m)],
                   ''Restaurant: '' @ n, ''Menu: '' @ m]
                  @ fst (save_report en (report_filename en)
                      (sequential_report en c
                         [(''cuisine'', c), (''restaurant_name'', n), (''menu_items'', m)] n m)))
                 (snd (save_report en (report_filename en)
                      (sequential_report en c
                         [(''cuisine'', c), (''restaurant_name'', n), (''menu_items'', m)] n m))) w2))"
proof -
  obtain r1 w1 where c1: "complete l (name_prompt_text c) w = (r1, w1)"
    by (cases "complete l (name_prompt_text c) w")
  show ?thesis
  proof (cases r1)
    case (Inl e)
    with c1 show ?thesis
      by (simp add: main_with_sequential_chain_def LLMChain_new_def build_program_chain
          invoke_program_chain)
  next
    case (Inr n)
    obtain r2 w2 where c2: "complete l (menu_prompt_text n) w1 = (r2, w2)"
      by (cases "complete l (menu_prompt_text n) w1")
    show ?thesis
    proof (cases r2)
      case (Inl e)
      with c1 c2 \<open>r1 = Inr n\<close> show ?thesis
        by (simp add: main_with_sequential_chain_def LLMChain_new_def build_program_chain
            invoke_program_chain)
    next
      case (Inr m)
      with c1 c2 \<open>r1 = Inr n\<close> show ?thesis
        by (simp add: main_with_sequential_chain_def LLMChain_new_def build_program_chain
            invoke_program_chain dict_get_def split: prod.splits)
    qed
  qed
qed

lemma complete_eq: "l s p = (r, s') \<Longrightarrow> complete l p (s, cs) = (r, (s', cs @ [p]))"
  by (simp add: complete_def)

lemma main_success:
  "l s (name_prompt_text c) = (Inr n, s1) \<Longrightarrow> l s1 (menu_prompt_text n) = (Inr m, s2) \<Longrightarrow>
   main (Some c) (Some l) (Some create_restaurant_name_prompt_template)
     (Some create_restaurant_menu_prompt_template) en (s, cs) =
   finish (Inr None)
     ([''Main Called'', nl @ ''Final Output:'', ''Restaurant: '' @ n, ''Menu: '' @ m]
      @ fst (save_report en (report_filename en) (main_report en c n m)))
     (snd (save_report en (report_filename en) (main_report en c n m)))
     (s2, cs @ [name_prompt_text c, menu_prompt_text n])"
  by (simp add: main_steps complete_eq)

lemma sequential_success:
  "l s (name_prompt_text c) = (Inr n, s1) \<Longrightarrow> l s1 (menu_prompt_text n) = (Inr m, s2) \<Longrightarrow>
   main_with_sequential_chain c (Some l) (Some create_restaurant_name_prompt_template)
     (Some create_restaurant_menu_prompt_template) en (s, cs) =
   finish (Inr (Some [(''cuisine'', c), (''restaurant_name'', n), (''menu_items'', m)]))
     ([''Sequential Chain Implementation Called'',
       nl @ ''Sequential Chain Final Output: ''
         @ dict_str en [(''cuisine'', c), (''restaurant_name'', n), (''menu_items'', m)],
       ''Restaurant: '' @ n, ''Menu: '' @ m]
      @ fst (save_report en (report_filename en)
          (sequential_report en c
             [(''cuisine'', c), (''restaurant_name'', n), (''menu_items'', m)] n m)))
     (snd (save_report en (report_filename en)
          (sequential_report en c
             [(''cuisine'', c), (''restaurant_name'', n), (''menu_items'', m)] n m)))
     (s2, cs @ [name_prompt_text c, menu_prompt_text n])"
  by (simp add: sequential_steps complete_eq)


lemma save_report_ok:
  "fault en = NoFault \<Longrightarrow> save_report en f chunks = ([saved_message f], [(f, concat chunks)])"
  by (simp add: save_report_def)



lemma stub_italian: "stub_llm () (name_prompt_text ''Italian'') = (Inr ''Bella Notte'', ())"
  by (simp add: stub_llm_def name_prompt_text_def menu_prompt_text_def)

lemma stub_bella_notte:
  "stub_llm () (menu_prompt_text ''Bella Notte'')
     = (Inr ''Margherita Pizza, Caprese Salad, Bruschetta'', ())"
  by (simp add: stub_llm_def name_prompt_text_def menu_prompt_text_def)

lemma stub_mexican:
  "stub_llm () (name_prompt_text ''Mexican'') = (Inl (CapabilityError ''service unavailable''), ())"
  by (simp add: stub_llm_def name_prompt_text_def menu_prompt_text_def)

lemma stub_env_fault: "fault stub_env = NoFault"
  by (simp add: stub_env_def)

lemma main_on_stub_italian:
  "main (Some ''Italian'') (Some stub_llm) (Some create_restaurant_name_prompt_template)
     (Some create_restaurant_menu_prompt_template) en ((), cs) =
   finish (Inr None)
     ([''Main Called'', nl @ ''Final Output:'', ''Restaurant: Bella Notte'',
       ''Menu: Margherita Pizza, Caprese Salad, Bruschetta'']
      @ fst (save_report en (report_filename en)
          (main_report en ''Italian'' ''Bella Notte''
             ''Margherita Pizza, Caprese Salad, Bruschetta'')))
     (snd (save_report en (report_filename en)
          (main_report en ''Italian'' ''Bella Notte''
             ''Margherita Pizza, Caprese Salad, Bruschetta'')))
     ((), cs @ [name_prompt_text ''Italian'', menu_prompt_text ''Bella Notte''])"
  using stub_italian stub_bella_notte
    main_success [where l = stub_llm and s = "()" and c = "''Italian''" and n = "''Bella Notte''"
      and ?s1.0 = "()" and m = "''Margherita Pizza, Caprese Salad, Bruschetta''"
      and ?s2.0 = "()" and en = en and cs = cs]
  by simp

lemma sequential_on_stub_italian:
  "main_with_sequential_chain ''Italian'' (Some stub_llm)
     (Some create_restaurant_name_prompt_template)
     (Some create_restaurant_menu_prompt_template) en ((), cs) =
   finish (Inr (Some [(''cuisine'', ''Italian''), (''restaurant_name'', ''Bella Notte''),
        (''menu_items'', ''Margherita Pizza, Caprese Salad, Bruschetta'')]))
     ([''Sequential Chain Implementation Called'',
       nl @ ''Sequential Chain Final Output: ''
         @ dict_str en [(''cuisine'', ''Italian''), (''restaurant_name'', ''Bella Notte''),
             (''menu_items'', ''Margherita Pizza, Caprese Salad, Bruschetta'')],
       ''Restaurant: Bella Notte'', ''Menu: Margherita Pizza, Caprese Salad, Bruschetta'']
      @ fst (save_report en (report_filename en)
          (sequential_report en ''Italian''
             [(''cuisine'', ''Italian''), (''restaurant_name'', ''Bella Notte''),
              (''menu_items'', ''Margherita Pizza, Caprese Salad, Bruschetta'')]
             ''Bella Notte'' ''Margherita Pizza, Caprese Salad, Bruschetta'')))
     (snd (save_report en (report_filename en)
          (sequential_report en ''Italian''
             [(''cuisine'', ''Italian''), (''restaurant_name'', ''Bella Notte''),
              (''menu_items'', ''Margherita Pizza, Caprese Salad, Bruschetta'')]
             ''Bella Notte'' ''Margherita Pizza, Caprese Salad, Bruschetta'')))
     ((), cs @ [name_prompt_text ''Italian'', menu_prompt_text ''Bella Notte''])"
  using stub_italian stub_bella_notte
    sequential_success [where l = stub_llm and s = "()" and c = "''Italian''"
      and n = "''Bella Notte''" and ?s1.0 = "()"
      and m = "''Margherita Pizza, Caprese Salad, Bruschetta''"
      and ?s2.0 = "()" and en = en and cs = cs]
  by simp



lemma digit_cases:
  "k < 10 \<Longrightarrow> k = 0 \<or> k = 1 \<or> k = 2 \<or> k = 3 \<or> k = 4 \<or> k = 5 \<or> k = 6 \<or> k = 7 \<or> k = 8
     \<or> k = (9::nat)"
  by arith

lemma digit_value_digit: "digit_value (digit k) = k mod 10"
proof -
  have "k mod 10 < 10" by simp
  from digit_cases [OF this] show ?thesis
    by (elim disjE) (simp_all add: digit_def digit_value_def)
qed

lemma is_digit_digit: "is_digit (digit k)"
proof -
  have "k mod 10 < 10" by simp
  from digit_cases [OF this] show ?thesis
    by (elim disjE) (simp_all add: digit_def is_digit_def)
qed

lemma digit_not_slash: "digit k \<noteq> CHR ''/''"
proof -
  have "k mod 10 < 10" by simp
  from digit_cases [OF this] show ?thesis
    by (elim disjE) (simp_all add: digit_def)
qed


lemma decimal_pad2: "n < 100 \<Longrightarrow> decimal (pad2 n) = n"
proof -
  assume "n < 100"
  then have "n div 10 < 10" by simp
  then have "n div 10 mod 10 = n div 10" by simp
  then show ?thesis
    by (simp add: decimal_def pad2_def digit_value_digit)
qed

lemma decimal_pad4: "n < 10000 \<Longrightarrow> decimal (pad4 n) = n"
proof -
  assume "n < 10000"
  then have "n div 1000 < 10" by simp
  then have a: "n div 1000 mod 10 = n div 1000" by simp
  have b: "n div 100 = 10 * (n div 1000) + n div 100 mod 10"
    using div_mult_mod_eq [of "n div 100" 10] div_mult2_eq [of n 100 10] by simp
  have c: "n div 10 = 10 * (n div 100) + n div 10 mod 10"
    using div_mult_mod_eq [of "n div 10" 10] div_mult2_eq [of n 10 10] by simp
  have d: "n = 10 * (n div 10) + n mod 10"
    by simp
  have "10 * (10 * (10 * (n div 1000) + n div 100 mod 10) + n div 10 mod 10) + n mod 10 = n"
    using b c d by simp
  then show ?thesis
    by (simp add: decimal_def pad4_def digit_value_digit a)
qed


lemma timestamp_shape_compact: "timestamp_shape (strftime_compact t)"
  by (simp add: timestamp_shape_def strftime_compact_def pad2_def pad4_def is_digit_digit)

lemma filename_has_no_slash: "CHR ''/'' \<notin> set (report_filename en)"
  using digit_not_slash [symmetric]
  by (simp add: report_filename_def strftime_compact_def pad2_def pad4_def)


lemma compact_fields:
  assumes v: "valid_datetime t"
  shows "decimal (take 4 (strftime_compact t)) = year t
   \<and> decimal (take 2 (drop 4 (strftime_compact t))) = month t
   \<and> decimal (take 2 (drop 6 (strftime_compact t))) = day t
   \<and> decimal (take 2 (drop 9 (strftime_compact t))) = hour t
   \<and> decimal (take 2 (drop 11 (strftime_compact t))) = minute t
   \<and> decimal (take 2 (drop 13 (strftime_compact t))) = second t"
proof -
  have l: "length (pad4 (year t)) = 4" "length (pad2 (month t)) = 2"
    "length (pad2 (day t)) = 2" "length (pad2 (hour t)) = 2" "length (pad2 (minute t)) = 2"
    "length (pad2 (second t)) = 2"
    by (simp_all add: pad2_def pad4_def)
  from v have "year t < 10000" "month t < 100" "day t < 100" "hour t < 100" "minute t < 100"
    "second t < 100"
    by (simp_all add: valid_datetime_def)
  then show ?thesis
    by (simp add: strftime_compact_def l decimal_pad2 decimal_pad4)
qed


lemma readable_from_compact:
  "strftime_readable t =
     take 4 (strftime_compact t) @ ''-'' @ take 2 (drop 4 (strftime_compact t)) @ ''-''
     @ take 2 (drop 6 (strftime_compact t)) @ '' '' @ take 2 (drop 9 (strftime_compact t))
     @ '':'' @ take 2 (drop 11 (strftime_compact t)) @ '':''
     @ take 2 (drop 13 (strftime_compact t))"
  by (simp add: strftime_readable_def strftime_compact_def pad2_def pad4_def)

lemma stub_report_stamp: "strftime_readable (now_report stub_env) = ''2024-01-15 10:30:45''"
  by (simp add: stub_env_def stub_now_def strftime_readable_def pad2_def pad4_def digit_def)

lemma stub_report_filename: "report_filename stub_env = ''restaurant_output_20240115_103045.txt''"
  by (simp add: report_filename_def stub_env_def stub_now_def strftime_compact_def pad2_def
      pad4_def digit_def)

lemma stub_main_file:
  "files (main (Some ''Italian'') (Some stub_llm) (Some create_restaurant_name_prompt_template)
      (Some create_restaurant_menu_prompt_template) stub_env ((), []))
   = [(''restaurant_output_20240115_103045.txt'',
       ''=== LangChain Restaurant Generator Output ==='' @ nl
       @ ''Generated on: 2024-01-15 10:30:45'' @ nl
       @ ''Method: Manual Chain Management'' @ nl
       @ ''Cuisine Type: Italian'' @ nl
       @ ''--------------------------------------------------'' @ nl @ nl
       @ ''Restaurant Name: Bella Notte'' @ nl @ nl
       @ ''Menu Items: Margherita Pizza, Caprese Salad, Bruschetta'' @ nl @ nl
       @ ''=================================================='')]"
  by (simp add: main_on_stub_italian finish_def save_report_ok [OF stub_env_fault]
      main_report_def stub_report_stamp stub_report_filename)
     (simp add: eval_nat_numeral)

lemma stub_dict_str:
  "dict_str stub_env [(''cuisine'', ''Italian''), (''restaurant_name'', ''Bella Notte''),
      (''menu_items'', ''Margherita Pizza, Caprese Salad, Bruschetta'')]
   = ''{'' @ [CHR 39] @ ''cuisine'' @ [CHR 39] @ '': '' @ [CHR 39] @ ''Italian'' @ [CHR 39]
     @ '', '' @ [CHR 39] @ ''restaurant_name'' @ [CHR 39] @ '': '' @ [CHR 39]
     @ ''Bella Notte'' @ [CHR 39] @ '', '' @ [CHR 39] @ ''menu_items'' @ [CHR 39] @ '': ''
     @ [CHR 39] @ ''Margherita Pizza, Caprese Salad, Bruschetta'' @ [CHR 39] @ ''}''"
  by (simp add: dict_str_def join_def stub_env_def)

lemma stub_sequential_file:
  "files (main_with_sequential_chain ''Italian'' (Some stub_llm)
      (Some create_restaurant_name_prompt_template)
      (Some create_restaurant_menu_prompt_template) stub_env ((), []))
   = [(''restaurant_output_20240115_103045.txt'',
       ''=== LangChain Restaurant Generator Output ==='' @ nl
       @ ''Generated on: 2024-01-15 10:30:45'' @ nl
       @ ''Cuisine Type: Italian'' @ nl
       @ ''--------------------------------------------------'' @ nl @ nl
       @ ''Sequential Chain Final Output: {'' @ [CHR 39] @ ''cuisine'' @ [CHR 39] @ '': ''
       @ [CHR 39] @ ''Italian'' @ [CHR 39] @ '', '' @ [CHR 39] @ ''restaurant_name'' @ [CHR 39]
       @ '': '' @ [CHR 39] @ ''Bella Notte'' @ [CHR 39] @ '', '' @ [CHR 39] @ ''menu_items''
       @ [CHR 39] @ '': '' @ [CHR 39] @ ''Margherita Pizza, Caprese Salad, Bruschetta''
       @ [CHR 39] @ ''}'' @ nl @ nl
       @ ''Restaurant Name: Bella Notte'' @ nl @ nl
       @ ''Menu Items: Margherita Pizza, Caprese Salad, Bruschetta'' @ nl @ nl
       @ ''=================================================='')]"
  by (simp add: sequential_on_stub_italian finish_def save_report_ok [OF stub_env_fault]
      sequential_report_def stub_report_stamp stub_report_filename stub_dict_str)
     (simp add: eval_nat_numeral)









lemma window_example:
  "buffer_messages \<lparr> window_k = 5, chat_memory = concat (map exchange_messages
       [(''q1'', ''a1''), (''q2'', ''a2''), (''q3'', ''a3''), (''q4'', ''a4''), (''q5'', ''a5''),
        (''q6'', ''a6'')]) \<rparr>
   = concat (map exchange_messages
       [(''q2'', ''a2''), (''q3'', ''a3''), (''q4'', ''a4''), (''q5'', ''a5''), (''q6'', ''a6'')])"
  by (simp add: buffer_messages_def exchange_messages_def)

lemma stub_compact_stamp: "strftime_compact (now_filename stub_env) = ''20240115_103045''"
  by (simp add: stub_env_def stub_now_def strftime_compact_def pad2_def pad4_def digit_def)

lemma stub_clock_valid: "valid_datetime (now_filename stub_env)"
  by (simp add: stub_env_def stub_now_def valid_datetime_def)

section \<open>Templates\<close>

text \<open>
  C8. Every prompt template the program constructs (the restaurant-name template, the menu
  template and the conversation template) references in its format string exactly the
  placeholder names it declares as input variables. A template is a value of the model:
  the program has no statement that assigns to a template after its construction, and no
  function of the model returns a changed one.
\<close>

theorem templates_declare_their_placeholders:
  "placeholders (template create_restaurant_name_prompt_template) = Inr [''cuisine'']
   \<and> set [''cuisine''] = set (input_variables create_restaurant_name_prompt_template)
   \<and> placeholders (template create_restaurant_menu_prompt_template) = Inr [''restaurant_name'']
   \<and> set [''restaurant_name''] = set (input_variables create_restaurant_menu_prompt_template)
   \<and> placeholders (template create_conversation_prompt) = Inr [''history'', ''input'']
   \<and> set [''history'', ''input''] = set (input_variables create_conversation_prompt)"
  by (simp add: placeholders_def create_restaurant_name_prompt_template_def
      create_restaurant_menu_prompt_template_def create_conversation_prompt_def
      conversation_template_text_def)

text \<open>
  C7. For the empty cuisine string, rendering the name template raises nothing: the empty
  binding is inserted as it is, and both runners continue from that prompt by the same
  steps as for any other cuisine (the first completion call receives the rendered prompt,
  the second the menu prompt of its answer).
\<close>

theorem empty_cuisine_passes_through:
  "render create_restaurant_name_prompt_template [(''cuisine'', [])]
     = Inr ''I want to open a restaurant for  food. Suggest a fancy name for this. Only single name''
   \<and> name_prompt_text []
     = ''I want to open a restaurant for  food. Suggest a fancy name for this. Only single name''
   \<and> main (Some []) (Some l) (Some create_restaurant_name_prompt_template)
        (Some create_restaurant_menu_prompt_template) en w =
     (case complete l (name_prompt_text []) w of
        (Inl e, w1) \<Rightarrow> finish (Inl e) [''Main Called''] [] w1
      | (Inr n, w1) \<Rightarrow>
          (case complete l (menu_prompt_text n) w1 of
             (Inl e, w2) \<Rightarrow> finish (Inl e) [''Main Called''] [] w2
           | (Inr m, w2) \<Rightarrow>
               finish (Inr None)
                 ([''Main Called'', nl @ ''Final Output:'', ''Restaurant: '' @ n, ''Menu: '' @ m]
                  @ fst (save_report en (report_filename en) (main_report en [] n m)))
                 (snd (save_report en (report_filename en) (main_report en [] n m))) w2))
   \<and> fst (SequentialChain_invoke (program_chain l) [(''cuisine'', [])] w) =
     (case complete l (name_prompt_text []) w of
        (Inl e, w1) \<Rightarrow> Inl e
      | (Inr n, w1) \<Rightarrow>
          (case complete l (menu_prompt_text n) w1 of
             (Inl e, w2) \<Rightarrow> Inl e
           | (Inr m, w2) \<Rightarrow>
               Inr [(''cuisine'', []), (''restaurant_name'', n), (''menu_items'', m)]))"
proof -
  have "render create_restaurant_name_prompt_template [(''cuisine'', [])]
          = Inr (name_prompt_text [])"
    by (rule render_name_template) simp
  moreover have "name_prompt_text []
     = ''I want to open a restaurant for  food. Suggest a fancy name for this. Only single name''"
    by (simp add: name_prompt_text_def)
  moreover note main_steps [of "[]" l en w]
  moreover have "fst (SequentialChain_invoke (program_chain l) [(''cuisine'', [])] w) =
     (case complete l (name_prompt_text []) w of
        (Inl e, w1) \<Rightarrow> Inl e
      | (Inr n, w1) \<Rightarrow>
          (case complete l (menu_prompt_text n) w1 of
             (Inl e, w2) \<Rightarrow> Inl e
           | (Inr m, w2) \<Rightarrow>
               Inr [(''cuisine'', []), (''restaurant_name'', n), (''menu_items'', m)]))"
    by (simp add: invoke_program_chain split: prod.splits sum.splits)
  ultimately show ?thesis by simp
qed

section \<open>Failures\<close>

text \<open>
  C3. When a completion call raises, at the first step or at the second, either runner
  stops there: the exception is the outcome of the run, so no result is produced; no file
  is written; and the prompts sent are exactly those up to the failing call, each sent
  once, so nothing is retried.
\<close>

theorem capability_failure_aborts:
  "(l s (name_prompt_text c) = (Inl e, s1) \<longrightarrow>
      main (Some c) (Some l) (Some create_restaurant_name_prompt_template)
        (Some create_restaurant_menu_prompt_template) en (s, cs)
      = \<lparr> outcome = Inl e, console = [''Main Called''], files = [],
          calls = cs @ [name_prompt_text c], llm_state = s1 \<rparr>
    \<and> main_with_sequential_chain c (Some l) (Some create_restaurant_name_prompt_template)
        (Some create_restaurant_menu_prompt_template) en (s, cs)
      = \<lparr> outcome = Inl e, console = [''Sequential Chain Implementation Called''], files = [],
          calls = cs @ [name_prompt_text c], llm_state = s1 \<rparr>)
   \<and> (l s (name_prompt_text c) = (Inr n, s1) \<and> l s1 (menu_prompt_text n) = (Inl e, s2) \<longrightarrow>
      main (Some c) (Some l) (Some create_restaurant_name_prompt_template)
        (Some create_restaurant_menu_prompt_template) en (s, cs)
      = \<lparr> outcome = Inl e, console = [''Main Called''], files = [],
          calls = cs @ [name_prompt_text c, menu_prompt_text n], llm_state = s2 \<rparr>
    \<and> main_with_sequential_chain c (Some l) (Some create_restaurant_name_prompt_template)
        (Some create_restaurant_menu_prompt_template) en (s, cs)
      = \<lparr> outcome = Inl e, console = [''Sequential Chain Implementation Called''], files = [],
          calls = cs @ [name_prompt_text c, menu_prompt_text n], llm_state = s2 \<rparr>)"
  by (simp add: main_steps sequential_steps complete_eq finish_def)

theorem capability_failure_aborts_witness:
  "main (Some ''Mexican'') (Some stub_llm) (Some create_restaurant_name_prompt_template)
        (Some create_restaurant_menu_prompt_template) stub_env ((), [])
      = \<lparr> outcome = Inl (CapabilityError ''service unavailable''), console = [''Main Called''],
          files = [], calls = [name_prompt_text ''Mexican''], llm_state = () \<rparr>
   \<and> main_with_sequential_chain ''Thai'' (Some stub_llm)
        (Some create_restaurant_name_prompt_template)
        (Some create_restaurant_menu_prompt_template) stub_env ((), [])
      = \<lparr> outcome = Inl (CapabilityError ''service unavailable''),
          console = [''Sequential Chain Implementation Called''], files = [],
          calls = [name_prompt_text ''Thai'', menu_prompt_text ''Siam Garden''],
          llm_state = () \<rparr>"
proof -
  have a: "stub_llm () (name_prompt_text ''Mexican'')
             = (Inl (CapabilityError ''service unavailable''), ())"
    by (simp add: stub_llm_def name_prompt_text_def menu_prompt_text_def)
  have b: "stub_llm () (name_prompt_text ''Thai'') = (Inr ''Siam Garden'', ())"
    by (simp add: stub_llm_def name_prompt_text_def menu_prompt_text_def)
  have c: "stub_llm () (menu_prompt_text ''Siam Garden'')
             = (Inl (CapabilityError ''service unavailable''), ())"
    by (simp add: stub_llm_def name_prompt_text_def menu_prompt_text_def)
  from a b c
    capability_failure_aborts [of stub_llm "()" "''Mexican''"
      "CapabilityError ''service unavailable''" "()" stub_env "[]"]
    capability_failure_aborts [of stub_llm "()" "''Thai''"
      "CapabilityError ''service unavailable''" "()" stub_env "[]" "''Siam Garden''" "()"]
  show ?thesis by simp
qed




section \<open>The two runners compared\<close>

text \<open>
  C2, as stated, fails: on the Italian run of the stub, where both completion calls return,
  the manual runner prints both generated texts and returns \<^verbatim>\<open>None\<close>, not a mapping.
  The function has no \<^verbatim>\<open>return\<close> statement and its docstring promises none.
\<close>

theorem manual_runner_returns_no_mapping:
  "outcome (main (Some ''Italian'') (Some stub_llm) (Some create_restaurant_name_prompt_template)
      (Some create_restaurant_menu_prompt_template) stub_env ((), [])) = Inr None
   \<and> console (main (Some ''Italian'') (Some stub_llm)
      (Some create_restaurant_name_prompt_template)
      (Some create_restaurant_menu_prompt_template) stub_env ((), []))
     = [''Main Called'', nl @ ''Final Output:'', ''Restaurant: Bella Notte'',
        ''Menu: Margherita Pizza, Caprese Salad, Bruschetta'',
        nl @ check_mark @ '' Results saved to: restaurant_output_20240115_103045.txt'']"
  by (simp add: main_on_stub_italian finish_def
      save_report_ok [OF stub_env_fault] saved_message_def report_filename_def)
     (simp add: stub_env_def stub_now_def strftime_compact_def pad2_def pad4_def digit_def)

text \<open>
  C2, amended. For every cuisine on which both completion calls return, the manual runner
  prints the restaurant name and the menu text, hands both (with the cuisine) to the
  report, has sent exactly the two prompts, and returns \<^verbatim>\<open>None\<close>.
\<close>

theorem manual_runner_reports_and_returns_none:
  assumes "l s (name_prompt_text c) = (Inr n, s1)"
    and "l s1 (menu_prompt_text n) = (Inr m, s2)"
  shows "main (Some c) (Some l) (Some create_restaurant_name_prompt_template)
            (Some create_restaurant_menu_prompt_template) en (s, cs)
    = \<lparr> outcome = Inr None,
        console = [''Main Called'', nl @ ''Final Output:'', ''Restaurant: '' @ n, ''Menu: '' @ m]
                  @ fst (save_report en (report_filename en) (main_report en c n m)),
        files = snd (save_report en (report_filename en) (main_report en c n m)),
        calls = cs @ [name_prompt_text c, menu_prompt_text n],
        llm_state = s2 \<rparr>"
  by (simp add: main_success [OF assms] finish_def)

theorem manual_runner_reports_and_returns_none_witness:
  "main (Some ''Italian'') (Some stub_llm) (Some create_restaurant_name_prompt_template)
      (Some create_restaurant_menu_prompt_template) stub_env ((), [])
    = \<lparr> outcome = Inr None,
        console = [''Main Called'', nl @ ''Final Output:'', ''Restaurant: Bella Notte'',
                   ''Menu: Margherita Pizza, Caprese Salad, Bruschetta'']
                  @ fst (save_report stub_env (report_filename stub_env)
                      (main_report stub_env ''Italian'' ''Bella Notte''
                         ''Margherita Pizza, Caprese Salad, Bruschetta'')),
        files = snd (save_report stub_env (report_filename stub_env)
                      (main_report stub_env ''Italian'' ''Bella Notte''
                         ''Margherita Pizza, Caprese Salad, Bruschetta'')),
        calls = [name_prompt_text ''Italian'', menu_prompt_text ''Bella Notte''],
        llm_state = () \<rparr>"
  using stub_italian stub_bella_notte
    manual_runner_reports_and_returns_none [where l = stub_llm and s = "()"
      and c = "''Italian''" and n = "''Bella Notte''" and ?s1.0 = "()"
      and m = "''Margherita Pizza, Caprese Salad, Bruschetta''" and ?s2.0 = "()"
      and en = stub_env and cs = "[]"]
  by simp


text \<open>
  C6, as stated, fails for a run whose first completion call raises: on the Mexican run of
  the stub either runner makes one completion call, not two.
\<close>

theorem failing_first_call_is_the_only_call:
  "calls (main (Some ''Mexican'') (Some stub_llm) (Some create_restaurant_name_prompt_template)
      (Some create_restaurant_menu_prompt_template) stub_env ((), []))
     = [''I want to open a restaurant for Mexican food. Suggest a fancy name for this. Only single name'']
   \<and> length (calls (main_with_sequential_chain ''Mexican'' (Some stub_llm)
      (Some create_restaurant_name_prompt_template)
      (Some create_restaurant_menu_prompt_template) stub_env ((), []))) = 1"
  using stub_mexican
  by (simp add: main_steps sequential_steps complete_def finish_def)
     (simp add: name_prompt_text_def)

text \<open>
  C6, amended. For every run of either runner the completion calls are made in order and
  there are at most two: the first prompt is a function of the cuisine alone; the second
  call is made exactly when the first returns, and its prompt is a function of the first
  call's text alone; a report is written only when both calls return, and its chunks are
  built from the cuisine, the two texts and the clock.
\<close>

theorem completion_calls_in_order:
  "calls (main (Some c) (Some l) (Some create_restaurant_name_prompt_template)
      (Some create_restaurant_menu_prompt_template) en (s, cs))
     = cs @ (case l s (name_prompt_text c) of
               (Inl e, s1) \<Rightarrow> [name_prompt_text c]
             | (Inr n, s1) \<Rightarrow> [name_prompt_text c, menu_prompt_text n])
   \<and> calls (main_with_sequential_chain c (Some l) (Some create_restaurant_name_prompt_template)
      (Some create_restaurant_menu_prompt_template) en (s, cs))
     = cs @ (case l s (name_prompt_text c) of
               (Inl e, s1) \<Rightarrow> [name_prompt_text c]
             | (Inr n, s1) \<Rightarrow> [name_prompt_text c, menu_prompt_text n])
   \<and> files (main (Some c) (Some l) (Some create_restaurant_name_prompt_template)
      (Some create_restaurant_menu_prompt_template) en (s, cs))
     = (case l s (name_prompt_text c) of
          (Inl e, s1) \<Rightarrow> []
        | (Inr n, s1) \<Rightarrow>
            (case l s1 (menu_prompt_text n) of
               (Inl e, s2) \<Rightarrow> []
             | (Inr m, s2) \<Rightarrow> snd (save_report en (report_filename en) (main_report en c n m))))
   \<and> files (main_with_sequential_chain c (Some l) (Some create_restaurant_name_prompt_template)
      (Some create_restaurant_menu_prompt_template) en (s, cs))
     = (case l s (name_prompt_text c) of
          (Inl e, s1) \<Rightarrow> []
        | (Inr n, s1) \<Rightarrow>
            (case l s1 (menu_prompt_text n) of
               (Inl e, s2) \<Rightarrow> []
             | (Inr m, s2) \<Rightarrow>
                 snd (save_report en (report_filename en)
                   (sequential_report en c
                      [(''cuisine'', c), (''restaurant_name'', n), (''menu_items'', m)] n m))))"
proof -
  obtain r1 s1 where c1: "l s (name_prompt_text c) = (r1, s1)"
    by (cases "l s (name_prompt_text c)")
  show ?thesis
  proof (cases r1)
    case (Inl e)
    with c1 show ?thesis
      by (simp add: main_steps sequential_steps complete_eq finish_def)
  next
    case (Inr n)
    obtain r2 s2 where c2: "l s1 (menu_prompt_text n) = (r2, s2)"
      by (cases "l s1 (menu_prompt_text n)")
    show ?thesis
    proof (cases r2)
      case (Inl e)
      with c1 c2 \<open>r1 = Inr n\<close> show ?thesis
        by (simp add: main_steps sequential_steps complete_eq finish_def)
    next
      case (Inr m)
      with c1 c2 \<open>r1 = Inr n\<close> show ?thesis
        by (simp add: main_steps sequential_steps complete_eq finish_def)
    qed
  qed
qed

section \<open>The fallback of the entry point\<close>




section \<open>The report file\<close>

text \<open>
  C5, as stated, fails in its last clause (no other lines): on the Italian run of the
  stub the manual runner's report has eleven lines, among them the line
  \<^verbatim>\<open>Method: Manual Chain Management\<close> and four empty lines, and neither runner's
  report passes the check of the specification's seven-line layout (the automatic
  runner's report has the line \<^verbatim>\<open>Sequential Chain Final Output: ...\<close> instead of the
  method line).
\<close>

theorem report_has_other_lines:
  "length (files (main (Some ''Italian'') (Some stub_llm)
      (Some create_restaurant_name_prompt_template)
      (Some create_restaurant_menu_prompt_template) stub_env ((), []))) = 1
   \<and> lines_of (snd (hd (files (main (Some ''Italian'') (Some stub_llm)
      (Some create_restaurant_name_prompt_template)
      (Some create_restaurant_menu_prompt_template) stub_env ((), [])))))
     = [''=== LangChain Restaurant Generator Output ==='',
        ''Generated on: 2024-01-15 10:30:45'',
        ''Method: Manual Chain Management'',
        ''Cuisine Type: Italian'',
        ''--------------------------------------------------'',
        [],
        ''Restaurant Name: Bella Notte'',
        [],
        ''Menu Items: Margherita Pizza, Caprese Salad, Bruschetta'',
        [],
        ''=================================================='']
   \<and> \<not> spec_layout ''Italian'' ''Bella Notte'' ''Margherita Pizza, Caprese Salad, Bruschetta''
        (lines_of (snd (hd (files (main (Some ''Italian'') (Some stub_llm)
          (Some create_restaurant_name_prompt_template)
          (Some create_restaurant_menu_prompt_template) stub_env ((), []))))))
   \<and> length (files (main_with_sequential_chain ''Italian'' (Some stub_llm)
      (Some create_restaurant_name_prompt_template)
      (Some create_restaurant_menu_prompt_template) stub_env ((), []))) = 1
   \<and> \<not> spec_layout ''Italian'' ''Bella Notte'' ''Margherita Pizza, Caprese Salad, Bruschetta''
        (lines_of (snd (hd (files (main_with_sequential_chain ''Italian'' (Some stub_llm)
          (Some create_restaurant_name_prompt_template)
          (Some create_restaurant_menu_prompt_template) stub_env ((), []))))))"
  by (simp add: stub_main_file stub_sequential_file lines_of_def nl_def spec_layout_def)

text \<open>
  C5, amended. For every run in which both completion calls return and the file system
  raises nothing, with a clock reading of a four-digit year, the one file written is named
  \<^verbatim>\<open>restaurant_output_<YYYYMMDD_HHMMSS>.txt\<close> (fifteen characters, digits around one
  underscore, which write the fields of the clock reading; no directory part), and its
  content is exactly: the header line, the \<^verbatim>\<open>Generated on:\<close> line with the same digit
  groups as \<^verbatim>\<open>YYYY-MM-DD HH:MM:SS\<close>, for the manual runner the line
  \<^verbatim>\<open>Method: Manual Chain Management\<close>, the cuisine line, fifty dashes, an empty line,
  for the automatic runner the line \<^verbatim>\<open>Sequential Chain Final Output:\<close> with the
  result dict and an empty line, the restaurant name line, an empty line, the menu items
  line, an empty line, and fifty equals signs with no line feed after them.
\<close>

theorem report_file_layout:
  assumes "l s (name_prompt_text c) = (Inr n, s1)"
    and "l s1 (menu_prompt_text n) = (Inr m, s2)"
    and "fault en = NoFault"
    and "valid_datetime (now_filename en)"
  shows "files (main (Some c) (Some l) (Some create_restaurant_name_prompt_template)
            (Some create_restaurant_menu_prompt_template) en (s, cs))
     = [(''restaurant_output_'' @ strftime_compact (now_filename en) @ ''.txt'',
         ''=== LangChain Restaurant Generator Output ==='' @ nl
         @ ''Generated on: '' @ strftime_readable (now_report en) @ nl
         @ ''Method: Manual Chain Management'' @ nl
         @ ''Cuisine Type: '' @ c @ nl
         @ replicate 50 (CHR ''-'') @ nl @ nl
         @ ''Restaurant Name: '' @ n @ nl @ nl
         @ ''Menu Items: '' @ m @ nl @ nl
         @ replicate 50 (CHR ''=''))]
    \<and> files (main_with_sequential_chain c (Some l)
            (Some create_restaurant_name_prompt_template)
            (Some create_restaurant_menu_prompt_template) en (s, cs))
     = [(''restaurant_output_'' @ strftime_compact (now_filename en) @ ''.txt'',
         ''=== LangChain Restaurant Generator Output ==='' @ nl
         @ ''Generated on: '' @ strftime_readable (now_report en) @ nl
         @ ''Cuisine Type: '' @ c @ nl
         @ replicate 50 (CHR ''-'') @ nl @ nl
         @ ''Sequential Chain Final Output: ''
         @ dict_str en [(''cuisine'', c), (''restaurant_name'', n), (''menu_items'', m)]
         @ nl @ nl
         @ ''Restaurant Name: '' @ n @ nl @ nl
         @ ''Menu Items: '' @ m @ nl @ nl
         @ replicate 50 (CHR ''=''))]
    \<and> timestamp_shape (strftime_compact (now_filename en))
    \<and> decimal (take 4 (strftime_compact (now_filename en))) = year (now_filename en)
    \<and> decimal (take 2 (drop 4 (strftime_compact (now_filename en)))) = month (now_filename en)
    \<and> decimal (take 2 (drop 6 (strftime_compact (now_filename en)))) = day (now_filename en)
    \<and> decimal (take 2 (drop 9 (strftime_compact (now_filename en)))) = hour (now_filename en)
    \<and> decimal (take 2 (drop 11 (strftime_compact (now_filename en)))) = minute (now_filename en)
    \<and> decimal (take 2 (drop 13 (strftime_compact (now_filename en)))) = second (now_filename en)
    \<and> CHR ''/'' \<notin> set (report_filename en)
    \<and> strftime_readable (now_report en) =
        take 4 (strftime_compact (now_report en)) @ ''-''
        @ take 2 (drop 4 (strftime_compact (now_report en))) @ ''-''
        @ take 2 (drop 6 (strftime_compact (now_report en))) @ '' ''
        @ take 2 (drop 9 (strftime_compact (now_report en))) @ '':''
        @ take 2 (drop 11 (strftime_compact (now_report en))) @ '':''
        @ take 2 (drop 13 (strftime_compact (now_report en)))"
proof -
  have a: "files (main (Some c) (Some l) (Some create_restaurant_name_prompt_template)
            (Some create_restaurant_menu_prompt_template) en (s, cs))
     = [(''restaurant_output_'' @ strftime_compact (now_filename en) @ ''.txt'',
         ''=== LangChain Restaurant Generator Output ==='' @ nl
         @ ''Generated on: '' @ strftime_readable (now_report en) @ nl
         @ ''Method: Manual Chain Management'' @ nl
         @ ''Cuisine Type: '' @ c @ nl
         @ replicate 50 (CHR ''-'') @ nl @ nl
         @ ''Restaurant Name: '' @ n @ nl @ nl
         @ ''Menu Items: '' @ m @ nl @ nl
         @ replicate 50 (CHR ''=''))]"
    by (simp add: main_success [OF assms(1,2)] finish_def save_report_ok [OF assms(3)]
        main_report_def report_filename_def)
  have b: "files (main_with_sequential_chain c (Some l)
            (Some create_restaurant_name_prompt_template)
            (Some create_restaurant_menu_prompt_template) en (s, cs))
     = [(''restaurant_output_'' @ strftime_compact (now_filename en) @ ''.txt'',
         ''=== LangChain Restaurant Generator Output ==='' @ nl
         @ ''Generated on: '' @ strftime_readable (now_report en) @ nl
         @ ''Cuisine Type: '' @ c @ nl
         @ replicate 50 (CHR ''-'') @ nl @ nl
         @ ''Sequential Chain Final Output: ''
         @ dict_str en [(''cuisine'', c), (''restaurant_name'', n), (''menu_items'', m)]
         @ nl @ nl
         @ ''Restaurant Name: '' @ n @ nl @ nl
         @ ''Menu Items: '' @ m @ nl @ nl
         @ replicate 50 (CHR ''=''))]"
    by (simp add: sequential_success [OF assms(1,2)] finish_def save_report_ok [OF assms(3)]
        sequential_report_def report_filename_def)
  note c = compact_fields [OF assms(4)]
  show ?thesis
    using a b c timestamp_shape_compact [of "now_filename en"] filename_has_no_slash [of en]
      readable_from_compact [of "now_report en"]
    by blast
qed


theorem report_file_layout_witness:
  "files (main (Some ''Italian'') (Some stub_llm) (Some create_restaurant_name_prompt_template)
      (Some create_restaurant_menu_prompt_template) stub_env ((), []))
   = [(''restaurant_output_20240115_103045.txt'',
       ''=== LangChain Restaurant Generator Output ==='' @ nl
       @ ''Generated on: 2024-01-15 10:30:45'' @ nl
       @ ''Method: Manual Chain Management'' @ nl
       @ ''Cuisine Type: Italian'' @ nl
       @ ''--------------------------------------------------'' @ nl @ nl
       @ ''Restaurant Name: Bella Notte'' @ nl @ nl
       @ ''Menu Items: Margherita Pizza, Caprese Salad, Bruschetta'' @ nl @ nl
       @ ''=================================================='')]
   \<and> timestamp_shape ''20240115_103045''
   \<and> decimal ''2024'' = year stub_now \<and> decimal ''01'' = month stub_now
   \<and> decimal ''15'' = day stub_now \<and> decimal ''10'' = hour stub_now
   \<and> decimal ''30'' = minute stub_now \<and> decimal ''45'' = second stub_now"
proof -
  have n: "now_filename stub_env = stub_now" "now_report stub_env = stub_now"
    by (simp_all add: stub_env_def)
  have t: "strftime_compact stub_now = ''20240115_103045''"
    "strftime_readable stub_now = ''2024-01-15 10:30:45''"
    using stub_compact_stamp stub_report_stamp by (simp_all add: n)
  from stub_italian stub_bella_notte stub_env_fault stub_clock_valid
    report_file_layout [where l = stub_llm and s = "()" and c = "''Italian''"
      and n = "''Bella Notte''" and ?s1.0 = "()"
      and m = "''Margherita Pizza, Caprese Salad, Bruschetta''" and ?s2.0 = "()"
      and en = stub_env and cs = "[]"]
  show ?thesis
    by (simp add: n t eval_nat_numeral)
qed

section \<open>The memory window\<close>


end
